theory Spec2Isabelle
  imports Complex_Main
begin

section \<open>JavaScript values\<close>

text \<open>
  The formatter takes an error of type \<open>any\<close> and inspects it at run time, so the model
  works on dynamically typed values. An object carries the classes whose prototypes are on
  its prototype chain (this decides \<open>instanceof\<close>) and its properties as an association
  list, in the order in which the engine enumerates them. For an error object the list holds
  what a property read finds; for the plain objects the code enumerates (\<open>errors\<close>,
  \<open>keyValue\<close>, \<open>query\<close>, \<open>body\<close>, the details) it holds the own enumerable properties.
  Numbers are the finite ones, as real numbers: NaN and the two infinities are left out, and
  so are functions, symbols and bigints.

  \<open>AppError\<close> is the application's own error class (\<open>./AppError\<close>); the formatter only
  tests \<open>instanceof AppError\<close> and reads \<open>statusCode\<close>, \<open>message\<close> and \<open>isOperational\<close>,
  so the class is a tag here and the three fields are ordinary properties.
\<close>

datatype jsclass = Error | MongooseError | ValidationError | CastError | AppError

datatype jsval =
    JUndefined
  | JNull
  | JBool bool
  | JNum real
  | JStr string
  | JObj "jsclass list" "(string \<times> jsval) list"

datatype exn = TypeError | RangeError

definition thenE :: "exn + 'a \<Rightarrow> ('a \<Rightarrow> exn + 'b) \<Rightarrow> exn + 'b" where
  "thenE m f = (case m of Inl e \<Rightarrow> Inl e | Inr x \<Rightarrow> f x)"

text \<open>Truthiness, as \<open>||\<close>, \<open>&&\<close>, \<open>!\<close> and \<open>if\<close> use it.\<close>

fun truthy :: "jsval \<Rightarrow> bool" where
  "truthy JUndefined = False"
| "truthy JNull = False"
| "truthy (JBool b) = b"
| "truthy (JNum n) = (n \<noteq> 0)"
| "truthy (JStr s) = (s \<noteq> [])"
| "truthy (JObj cs ps) = True"

fun nullish :: "jsval \<Rightarrow> bool" where
  "nullish JUndefined = True"
| "nullish JNull = True"
| "nullish v = False"

text \<open>\<open>v instanceof C\<close>: false for every primitive.\<close>

fun instanceof :: "jsval \<Rightarrow> jsclass \<Rightarrow> bool" where
  "instanceof (JObj cs ps) c = (c \<in> set cs)"
| "instanceof v c = False"

text \<open>
  Decimal text of an integer. A template literal prints a number that is an integer of
  magnitude at most \<open>2 ^ 53\<close> this way; the text of every other number is left to the
  environment (\<open>number_text\<close> below).
\<close>

definition digit :: "nat \<Rightarrow> char" where
  "digit d = ''0123456789'' ! d"

fun show_nat :: "nat \<Rightarrow> string" where
  "show_nat n = (if n < 10 then [digit n] else show_nat (n div 10) @ [digit (n mod 10)])"

declare show_nat.simps [simp del]

definition show_int :: "int \<Rightarrow> string" where
  "show_int i = (if i < 0 then CHR ''-'' # show_nat (nat (- i)) else show_nat (nat i))"

definition is_integer :: "real \<Rightarrow> bool" where
  "is_integer r = (of_int \<lfloor>r\<rfloor> = r)"

definition safe_integer :: "real \<Rightarrow> bool" where
  "safe_integer r = (is_integer r \<and> \<bar>r\<bar> \<le> 9007199254740992)"

text \<open>
  A property read \<open>v[k]\<close>. On \<open>undefined\<close> and \<open>null\<close> it throws a TypeError
  (\<open>get_prop\<close>); on a string the index keys give its characters; on the other primitives
  every key the code reads is absent.
\<close>

definition lookup :: "(string \<times> jsval) list \<Rightarrow> string \<Rightarrow> jsval" where
  "lookup ps k = (case map_of ps k of Some v \<Rightarrow> v | None \<Rightarrow> JUndefined)"

fun read_prop :: "jsval \<Rightarrow> string \<Rightarrow> jsval" where
  "read_prop (JObj cs ps) k = lookup ps k"
| "read_prop (JStr s) k =
     (case find (\<lambda>i. show_nat i = k) [0..<length s] of
        Some i \<Rightarrow> JStr [s ! i]
      | None \<Rightarrow> if k = ''length'' then JNum (of_nat (length s)) else JUndefined)"
| "read_prop v k = JUndefined"

definition get_prop :: "jsval \<Rightarrow> string \<Rightarrow> exn + jsval" where
  "get_prop v k = (if nullish v then Inl TypeError else Inr (read_prop v k))"

text \<open>\<open>Object.keys\<close> and \<open>Object.values\<close>: both throw on \<open>undefined\<close> and \<open>null\<close>.\<close>

fun object_keys :: "jsval \<Rightarrow> exn + string list" where
  "object_keys JUndefined = Inl TypeError"
| "object_keys JNull = Inl TypeError"
| "object_keys (JObj cs ps) = Inr (map fst ps)"
| "object_keys (JStr s) = Inr (map show_nat [0..<length s])"
| "object_keys v = Inr []"

fun object_values :: "jsval \<Rightarrow> exn + jsval list" where
  "object_values JUndefined = Inl TypeError"
| "object_values JNull = Inl TypeError"
| "object_values (JObj cs ps) = Inr (map snd ps)"
| "object_values (JStr s) = Inr (map (\<lambda>c. JStr [c]) s)"
| "object_values v = Inr []"

text \<open>
  Writing a property: an existing key keeps its place and takes the new value, a new key
  goes to the end. This is \<open>o[k] = v\<close> and also \<open>{...o, [k]: v}\<close>.
\<close>

fun set_prop :: "string \<Rightarrow> jsval \<Rightarrow> (string \<times> jsval) list \<Rightarrow> (string \<times> jsval) list" where
  "set_prop k v [] = [(k, v)]"
| "set_prop k v (p # ps) = (if fst p = k then (k, v) # ps else p # set_prop k v ps)"

section \<open>The environment\<close>

text \<open>
  What the code reaches outside itself: \<open>process.env.NODE_ENV\<close>, the \<open>sanitize-html\<close>
  library (taken as a function that returns a string for every value), the text an object
  turns into inside a template literal or as a computed key, and the text of a number that
  is no integer or lies beyond \<open>2 ^ 53\<close>. The sampling rate is the module constant
  \<open>LOG_SAMPLING_RATE\<close>, with \<open>None\<close> for NaN. \<open>port_refused\<close> says of which ports
  \<open>app.listen\<close> throws (Node refuses a port number that is no integer from 0 to 65535).
\<close>

record env =
  NODE_ENV :: "string option"
  sanitize :: "jsval \<Rightarrow> string"
  object_text :: "jsval \<Rightarrow> string"
  number_text :: "real \<Rightarrow> string"
  LOG_SAMPLING_RATE :: "real option"
  port_refused :: "jsval \<Rightarrow> bool"

definition production :: "env \<Rightarrow> bool" where
  "production e = (NODE_ENV e = Some ''production'')"

fun to_text :: "env \<Rightarrow> jsval \<Rightarrow> string" where
  "to_text e JUndefined = ''undefined''"
| "to_text e JNull = ''null''"
| "to_text e (JBool b) = (if b then ''true'' else ''false'')"
| "to_text e (JNum r) = (if safe_integer r then show_int \<lfloor>r\<rfloor> else number_text e r)"
| "to_text e (JStr s) = s"
| "to_text e (JObj cs ps) = object_text e (JObj cs ps)"

text \<open>\<open>uuidv4()\<close> draws from a source of identifiers; the rest of the source comes back.\<close>

type_synonym uuid_src = "nat \<Rightarrow> string"

definition uuidv4 :: "uuid_src \<Rightarrow> string \<times> uuid_src" where
  "uuidv4 g = (g 0, \<lambda>n. g (Suc n))"

text \<open>\<open>v || uuidv4()\<close>: the identifier is drawn only when \<open>v\<close> is falsy.\<close>

definition or_uuid :: "jsval \<Rightarrow> uuid_src \<Rightarrow> jsval \<times> uuid_src" where
  "or_uuid v g = (if truthy v then (v, g) else (JStr (fst (uuidv4 g)), snd (uuidv4 g)))"

section \<open>Requests, log entries, responses\<close>

text \<open>
  The request as the two handlers read it. \<open>headers\<close> holds the lower-cased header names
  with their values (strings on the wire); \<open>req.get(name)\<close> reads it.
\<close>

record request =
  "method" :: string
  originalUrl :: string
  ip :: jsval
  headers :: "(string \<times> jsval) list"
  query :: "(string \<times> jsval) list"
  body :: jsval

definition header :: "request \<Rightarrow> string \<Rightarrow> jsval" where
  "header req k = lookup (headers req) k"

datatype level = LogInfo | LogError

type_synonym log_entry = "level \<times> (string \<times> jsval) list"

text \<open>
  What a handler did when it sent a response: the status and the body given to
  \<open>res.status(..).json(..)\<close>, the entries handed to the logger, and the identifier source
  after its draws. A handler that throws leaves the exception and the entries it had handed
  to the logger before.
\<close>

record handled =
  res_status :: jsval
  res_json :: "(string \<times> jsval) list"
  logged :: "log_entry list"
  uuids :: uuid_src

type_synonym thrown = "exn \<times> log_entry list"

text \<open>
  \<open>res.status(code)\<close> throws a TypeError for a code that is no integer and a RangeError for
  an integer outside 100 to 999; nothing is sent then.
\<close>

fun res_status_code :: "jsval \<Rightarrow> exn + jsval" where
  "res_status_code (JNum r) =
     (if \<not> is_integer r then Inl TypeError
      else if r < 100 \<or> r > 999 then Inl RangeError
      else Inr (JNum r))"
| "res_status_code v = Inl TypeError"

section \<open>The error formatter\<close>

record resolved =
  statusCode :: jsval
  message :: string
  errorCode :: string
  errorDetails :: "(string \<times> jsval) list"

text \<open>The reducer of the validation rule: \<open>{...acc, [err.path]: sanitize(err.message)}\<close>.\<close>

fun validation_details ::
  "env \<Rightarrow> jsval list \<Rightarrow> (string \<times> jsval) list \<Rightarrow> exn + (string \<times> jsval) list" where
  "validation_details e [] acc = Inr acc"
| "validation_details e (err # errs) acc =
     thenE (get_prop err ''path'') (\<lambda>p.
     thenE (get_prop err ''message'') (\<lambda>m.
       validation_details e errs (set_prop (to_text e p) (JStr (sanitize e m)) acc)))"

definition validation_rule :: "env \<Rightarrow> jsval \<Rightarrow> resolved \<Rightarrow> exn + resolved" where
  "validation_rule e error st =
     (if instanceof error ValidationError then
        thenE (get_prop error ''errors'') (\<lambda>errors.
        thenE (object_values errors) (\<lambda>vals.
        thenE (validation_details e vals []) (\<lambda>d.
          Inr (st\<lparr>statusCode := JNum 400, message := ''Validation failed'',
                  errorDetails := d, errorCode := ''ERR-VALIDATION-400''\<rparr>))))
      else Inr st)"

definition cast_rule :: "env \<Rightarrow> jsval \<Rightarrow> resolved \<Rightarrow> exn + resolved" where
  "cast_rule e error st =
     (if instanceof error CastError then
        thenE (get_prop error ''path'') (\<lambda>path.
        thenE (get_prop error ''value'') (\<lambda>val.
          Inr (st\<lparr>statusCode := JNum 400,
                  message := ''Invalid '' @ to_text e path @ '': '' @ sanitize e val,
                  errorCode := ''ERR-CAST-400''\<rparr>)))
      else Inr st)"

definition jwt_invalid_rule :: "jsval \<Rightarrow> resolved \<Rightarrow> exn + resolved" where
  "jwt_invalid_rule error st =
     thenE (get_prop error ''name'') (\<lambda>name.
       Inr (if name = JStr ''JsonWebTokenError''
            then st\<lparr>statusCode := JNum 401, message := ''Invalid token. Please login again.'',
                    errorCode := ''ERR-JWT-INVALID-401''\<rparr>
            else st))"

definition jwt_expired_rule :: "jsval \<Rightarrow> resolved \<Rightarrow> exn + resolved" where
  "jwt_expired_rule error st =
     thenE (get_prop error ''name'') (\<lambda>name.
       Inr (if name = JStr ''TokenExpiredError''
            then st\<lparr>statusCode := JNum 401,
                    message := ''Your token has expired. Please login again.'',
                    errorCode := ''ERR-JWT-EXPIRED-401''\<rparr>
            else st))"

definition rate_limit_rule :: "jsval \<Rightarrow> resolved \<Rightarrow> exn + resolved" where
  "rate_limit_rule error st =
     thenE (get_prop error ''code'') (\<lambda>code.
       if code = JStr ''RATE_LIMIT_EXCEEDED'' then
         thenE (get_prop error ''retryAfter'') (\<lambda>ra.
           Inr (st\<lparr>statusCode := JNum 429,
                   message := ''Too many requests. Please try again later.'',
                   errorCode := ''ERR-RATE-LIMIT-429'',
                   errorDetails := [(''retryAfter'', if truthy ra then ra else JNum 60)]\<rparr>))
       else Inr st)"

definition duplicate_rule :: "env \<Rightarrow> jsval \<Rightarrow> resolved \<Rightarrow> exn + resolved" where
  "duplicate_rule e error st =
     thenE (get_prop error ''name'') (\<lambda>name.
       if name = JStr ''MongoServerError'' then
         thenE (get_prop error ''code'') (\<lambda>code.
           if code = JNum 11000 then
             thenE (get_prop error ''keyValue'') (\<lambda>kv.
             thenE (object_keys kv) (\<lambda>keys.
               let k0 = (case keys of [] \<Rightarrow> JUndefined | k # ks \<Rightarrow> JStr k) in
               thenE (get_prop kv (to_text e k0)) (\<lambda>v0.
                 Inr (st\<lparr>statusCode := JNum 409, message := ''Duplicate entry found.'',
                         errorCode := ''ERR-DUPLICATE-409'',
                         errorDetails := [(''field'', k0), (''value'', JStr (sanitize e v0))]\<rparr>))))
           else Inr st)
       else Inr st)"

definition app_error_rule :: "env \<Rightarrow> jsval \<Rightarrow> resolved \<Rightarrow> exn + resolved" where
  "app_error_rule e error st =
     (if instanceof error AppError then
        thenE (get_prop error ''statusCode'') (\<lambda>sc.
        thenE (get_prop error ''message'') (\<lambda>m.
        thenE (get_prop error ''isOperational'') (\<lambda>op.
          Inr (st\<lparr>statusCode := sc, message := sanitize e m,
                  errorCode := ''ERR-APP-'' @ to_text e sc,
                  errorDetails := [(''isOperational'', op)]\<rparr>))))
      else Inr st)"

text \<open>The fallback: \<open>error instanceof Error && !errorDetails.message\<close>.\<close>

definition fallback_fires :: "jsval \<Rightarrow> resolved \<Rightarrow> bool" where
  "fallback_fires error st =
     (instanceof error Error \<and> \<not> truthy (lookup (errorDetails st) ''message''))"

definition fallback_rule :: "env \<Rightarrow> jsval \<Rightarrow> resolved \<Rightarrow> exn + resolved" where
  "fallback_rule e error st =
     (if fallback_fires error st then
        thenE (get_prop error ''message'') (\<lambda>m. Inr (st\<lparr>message := sanitize e m\<rparr>))
      else Inr st)"

text \<open>The rules before the fallback, in the order of the source, then all of them.\<close>

definition classify_rules :: "env \<Rightarrow> jsval \<Rightarrow> resolved \<Rightarrow> exn + resolved" where
  "classify_rules e error st =
     thenE (validation_rule e error st) (\<lambda>st.
     thenE (cast_rule e error st) (\<lambda>st.
     thenE (jwt_invalid_rule error st) (\<lambda>st.
     thenE (jwt_expired_rule error st) (\<lambda>st.
     thenE (rate_limit_rule error st) (\<lambda>st.
     thenE (duplicate_rule e error st) (\<lambda>st.
       app_error_rule e error st))))))"

definition classify :: "env \<Rightarrow> jsval \<Rightarrow> resolved \<Rightarrow> exn + resolved" where
  "classify e error st = thenE (classify_rules e error st) (fallback_rule e error)"

text \<open>
  The state before the rules: the defaults of \<open>statusCode\<close> and \<open>message\<close> apply when the
  caller gives none, and the code ends in the first eight characters of a fresh identifier.
\<close>

definition initial :: "env \<Rightarrow> real option \<Rightarrow> string option \<Rightarrow> string \<Rightarrow> resolved" where
  "initial e statusCode0 message0 u =
     (let sc = (case statusCode0 of None \<Rightarrow> 500 | Some n \<Rightarrow> n) in
      \<lparr>statusCode = JNum sc,
       message = (case message0 of None \<Rightarrow> ''Internal Server Error'' | Some m \<Rightarrow> m),
       errorCode = ''ERR-'' @ to_text e (JNum sc) @ ''-'' @ take 8 u,
       errorDetails = []\<rparr>)"

definition error_log ::
  "env \<Rightarrow> string \<Rightarrow> request \<Rightarrow> jsval \<Rightarrow> jsval \<Rightarrow> resolved \<Rightarrow> log_entry" where
  "error_log e now req correlationId error st =
     (LogError,
      [(''correlationId'', correlationId),
       (''method'', JStr (method req)),
       (''url'', JStr (originalUrl req)),
       (''message'', JStr (message st)),
       (''statusCode'', statusCode st),
       (''errorCode'', JStr (errorCode st)),
       (''ip'', ip req),
       (''userAgent'', header req ''user-agent''),
       (''stack'', if \<not> production e then read_prop error ''stack'' else JUndefined),
       (''details'', JObj [] (errorDetails st)),
       (''timestamp'', JStr now)])"

definition error_response :: "env \<Rightarrow> jsval \<Rightarrow> resolved \<Rightarrow> (string \<times> jsval) list" where
  "error_response e error st =
     [(''success'', JBool False),
      (''errorCode'', JStr (errorCode st)),
      (''message'', JStr (message st))]
     @ (if 0 < length (map fst (errorDetails st))
        then [(''details'', JObj [] (errorDetails st))] else [])
     @ (if \<not> production e then [(''stack'', read_prop error ''stack'')] else [])"

text \<open>
  The formatter: the two identifier draws, the rules (a throw there comes before anything
  is logged), the log entry, then the response; \<open>res.status\<close> may still throw once the
  entry has been logged.
\<close>

definition errorHandler ::
  "env \<Rightarrow> uuid_src \<Rightarrow> string \<Rightarrow> request \<Rightarrow> real option \<Rightarrow> string option \<Rightarrow> jsval
     \<Rightarrow> thrown + handled" where
  "errorHandler e g now req statusCode0 message0 error =
     (let (correlationId, g1) = or_uuid (header req ''x-correlation-id'') g;
          (u, g2) = uuidv4 g1
      in case classify e error (initial e statusCode0 message0 u) of
           Inl x \<Rightarrow> Inl (x, [])
         | Inr st \<Rightarrow>
            (let entry = error_log e now req correlationId error st;
                 response = error_response e error st
             in case res_status_code (statusCode st) of
                  Inl x \<Rightarrow> Inl (x, [entry])
                | Inr code \<Rightarrow>
                   Inr \<lparr>res_status = code, res_json = response, logged = [entry],
                        uuids = g2\<rparr>))"

text \<open>The global error middleware calls the formatter with the defaults.\<close>

definition globalErrorHandler ::
  "env \<Rightarrow> uuid_src \<Rightarrow> string \<Rightarrow> request \<Rightarrow> jsval \<Rightarrow> thrown + handled" where
  "globalErrorHandler e g now req err = errorHandler e g now req None None err"

section \<open>The success formatter\<close>

definition successHandler ::
  "uuid_src \<Rightarrow> real option \<Rightarrow> string option \<Rightarrow> jsval \<Rightarrow> thrown + handled" where
  "successHandler g statusCode0 message0 data =
     (case res_status_code (JNum (case statusCode0 of None \<Rightarrow> 200 | Some n \<Rightarrow> n)) of
        Inl x \<Rightarrow> Inl (x, [])
      | Inr code \<Rightarrow>
         Inr \<lparr>res_status = code,
              res_json =
                [(''success'', JBool True),
                 (''message'', JStr (case message0 of None \<Rightarrow> ''Success'' | Some m \<Rightarrow> m)),
                 (''data'', if data = JUndefined then JNull else data)],
              logged = [],
              uuids = g\<rparr>)"

section \<open>The request-logging middleware\<close>

definition SENSITIVE_PARAMS :: "string list" where
  "SENSITIVE_PARAMS = [''password'', ''token'', ''apiKey'', ''secret'']"

definition SKIP_LOGGING_ROUTES :: "string list" where
  "SKIP_LOGGING_ROUTES = [''/health'', ''/ping'', ''/static'']"

definition startsWith :: "string \<Rightarrow> string \<Rightarrow> bool" where
  "startsWith s p = (take (length p) s = p)"

definition skip_route :: "request \<Rightarrow> bool" where
  "skip_route req = list_ex (\<lambda>route. startsWith (originalUrl req) route) SKIP_LOGGING_ROUTES"

text \<open>
  \<open>LOG_SAMPLING_RATE < 1.0 && Math.random() > LOG_SAMPLING_RATE\<close>, with \<open>rnd\<close> the number
  \<open>Math.random()\<close> returns; every comparison with NaN is false.
\<close>

definition sampled_out :: "env \<Rightarrow> real \<Rightarrow> bool" where
  "sampled_out e rnd = (case LOG_SAMPLING_RATE e of None \<Rightarrow> False | Some r \<Rightarrow> r < 1 \<and> rnd > r)"

definition mask_query_param :: "(string \<times> jsval) list \<Rightarrow> string \<Rightarrow> (string \<times> jsval) list" where
  "mask_query_param q param = (if truthy (lookup q param) then set_prop param (JStr ''****'') q else q)"

definition sanitizedQuery :: "request \<Rightarrow> (string \<times> jsval) list" where
  "sanitizedQuery req = foldl mask_query_param (query req) SENSITIVE_PARAMS"

definition mask_body_param ::
  "env \<Rightarrow> (string \<times> jsval) list \<Rightarrow> string \<Rightarrow> (string \<times> jsval) list" where
  "mask_body_param e b param =
     (if truthy (lookup b param) then set_prop param (JStr (sanitize e (lookup b param))) b else b)"

text \<open>\<open>typeof v === "object"\<close> holds of objects and of \<open>null\<close>.\<close>

fun typeof_object :: "jsval \<Rightarrow> bool" where
  "typeof_object (JObj cs ps) = True"
| "typeof_object JNull = True"
| "typeof_object v = False"

definition body_logged :: "env \<Rightarrow> request \<Rightarrow> bool" where
  "body_logged e req =
     (\<not> production e \<and> method req \<in> set [''POST'', ''PUT''] \<and> truthy (body req)
      \<and> typeof_object (body req))"

definition sanitizedBody :: "env \<Rightarrow> request \<Rightarrow> jsval" where
  "sanitizedBody e req =
     (if body_logged e req then
        (case body req of
           JObj cs ps \<Rightarrow> JObj [] (foldl (mask_body_param e) ps SENSITIVE_PARAMS)
         | v \<Rightarrow> JUndefined)
      else JUndefined)"

text \<open>
  What the middleware leaves behind: the request (its headers may have been written), the
  \<open>logData\<close> object held by the listener it registered for the response's \<open>finish\<close> event
  (\<open>None\<close> when it registered none), the entries it logged itself, and the identifier
  source. It always goes on with \<open>next()\<close>: with a sanitizer that returns, no statement of
  the \<open>try\<close> block throws, so the \<open>catch\<close> block, the only place that logs at once and
  calls \<open>next(err)\<close>, is not entered.
\<close>

datatype next_call = Next | NextError jsval

record passed =
  req_out :: request
  listener :: "(string \<times> jsval) list option"
  logged_now :: "log_entry list"
  went_on :: next_call
  uuids_out :: uuid_src

definition correlation :: "uuid_src \<Rightarrow> request \<Rightarrow> jsval \<times> uuid_src" where
  "correlation g req =
     (if truthy (header req ''x-correlation-id'') then (header req ''x-correlation-id'', g)
      else or_uuid (header req ''correlation-id'') g)"

text \<open>The \<open>logData\<close> object as the middleware first builds it.\<close>

definition logData ::
  "env \<Rightarrow> string \<Rightarrow> request \<Rightarrow> jsval \<Rightarrow> (string \<times> jsval) list" where
  "logData e now req correlationId =
     [(''correlationId'', correlationId),
      (''method'', JStr (method req)),
      (''url'', JStr (originalUrl req)),
      (''ip'', ip req),
      (''userAgent'', header req ''user-agent''),
      (''query'', if 0 < length (map fst (sanitizedQuery req))
                  then JObj [] (sanitizedQuery req) else JUndefined),
      (''body'', sanitizedBody e req),
      (''timestamp'', JStr now)]"

definition logRequest :: "env \<Rightarrow> uuid_src \<Rightarrow> real \<Rightarrow> string \<Rightarrow> request \<Rightarrow> passed" where
  "logRequest e g rnd now req =
     (if skip_route req then
        \<lparr>req_out = req, listener = None, logged_now = [], went_on = Next, uuids_out = g\<rparr>
      else if sampled_out e rnd then
        \<lparr>req_out = req, listener = None, logged_now = [], went_on = Next, uuids_out = g\<rparr>
      else
        (let (correlationId, g') = correlation g req;
             req' = req\<lparr>headers := set_prop ''x-correlation-id'' correlationId (headers req)\<rparr>
         in \<lparr>req_out = req', listener = Some (logData e now req' correlationId),
              logged_now = [], went_on = Next, uuids_out = g'\<rparr>))"

text \<open>
  The listener, run when the response has been sent: \<open>req\<close> is the request object as it is
  then, \<open>status\<close> is \<open>res.statusCode\<close> and \<open>responseTime\<close> the number computed from the
  clock.
\<close>

definition finish ::
  "env \<Rightarrow> (string \<times> jsval) list \<Rightarrow> request \<Rightarrow> int \<Rightarrow> jsval \<Rightarrow> log_entry" where
  "finish e ld req status responseTime =
     (let ld' = set_prop ''responseTime'' responseTime
                  (set_prop ''statusCode'' (JNum (of_int status)) ld)
      in (if status \<ge> 400 then LogError else LogInfo,
          if \<not> production e then set_prop ''headers'' (JObj [] (headers req)) ld'
          else ld'))"

section \<open>Start-up\<close>

text \<open>
  The entry point runs top to bottom as one job of the event loop. \<open>connectDB()\<close> is called
  without \<open>await\<close>: inside that call the async function runs up to its \<open>await\<close>, where
  \<open>mongoose.connect\<close> has returned a promise, and what follows the \<open>await\<close> (the log line
  when the promise is fulfilled, the \<open>catch\<close> block when it is rejected) runs as a later job,
  after the entry point has reached its end. \<open>process.exit\<close> ends the process at once:
  nothing after it runs.

  \<open>app.listen(PORT, callback)\<close> binds the socket inside the call, or throws a RangeError
  when Node refuses the port; nothing in the entry point catches that error, and the model
  ends there with it. The callback prints its line in a job of its own, when the server
  reports that it listens; that job and the job of the promise run in either order.

  \<open>console\<close> holds the lines the program writes with \<open>console.log\<close> and \<open>console.error\<close>.
\<close>

datatype connect_outcome = Fulfilled string | Rejected jsval

datatype schedule = ListeningFirst | PromiseFirst

datatype stream = Stdout | Stderr

record process =
  console :: "(stream \<times> string) list"
  mounted :: "string list"
  listening :: "jsval option"
  exit_code :: "int option"

definition catch_block :: "env \<Rightarrow> jsval \<Rightarrow> process \<Rightarrow> process" where
  "catch_block e error p =
     (let line =
        (if instanceof error MongooseError
           then ''Mongoose Error: '' @ to_text e (read_prop error ''message'')
         else if instanceof error Error
           then ''Error: '' @ to_text e (read_prop error ''message'')
         else ''Unexpected Error: '' @ to_text e error)
      in p\<lparr>console := console p @ [(Stderr, line)], exit_code := Some 1\<rparr>)"

text \<open>\<open>process.env.PORT || 3000\<close>.\<close>

definition PORT :: "string option \<Rightarrow> jsval" where
  "PORT env_port =
     (case env_port of None \<Rightarrow> JNum 3000 | Some s \<Rightarrow> if s = [] then JNum 3000 else JStr s)"

text \<open>\<open>connectDB\<close> after its \<open>await\<close>.\<close>

definition connectDB_resume :: "env \<Rightarrow> connect_outcome \<Rightarrow> process \<Rightarrow> process" where
  "connectDB_resume e outcome p =
     (case outcome of
        Fulfilled host \<Rightarrow> p\<lparr>console := console p @ [(Stdout, ''MongoDB Connected: '' @ host)]\<rparr>
      | Rejected error \<Rightarrow> catch_block e error p)"

definition listening_callback :: "env \<Rightarrow> jsval \<Rightarrow> process \<Rightarrow> process" where
  "listening_callback e port p =
     p\<lparr>console := console p @
         [(Stdout, ''Server is running on  http://localhost:'' @ to_text e port)]\<rparr>"

definition entry_point ::
  "env \<Rightarrow> string option \<Rightarrow> connect_outcome \<Rightarrow> schedule \<Rightarrow> exn + process" where
  "entry_point e env_port outcome sched =
     (let p0 = \<lparr>console = [],
                mounted = [''cors'', ''express.json'', ''express.urlencoded'', ''globalErrorHandler''],
                listening = None, exit_code = None\<rparr>;
          p1 = p0\<lparr>mounted := mounted p0 @ [''GET /'']\<rparr>;
          port = PORT env_port
      in if port_refused e port then Inl RangeError
         else
           (let p2 = p1\<lparr>listening := Some port\<rparr> in
            case sched of
              ListeningFirst \<Rightarrow> Inr (connectDB_resume e outcome (listening_callback e port p2))
            | PromiseFirst \<Rightarrow>
               (let p3 = connectDB_resume e outcome p2
                in Inr (if exit_code p3 \<noteq> None then p3 else listening_callback e port p3))))"

section \<open>Sample inputs\<close>

text \<open>
  Concrete inputs at which the model is evaluated. \<open>plain_sanitize\<close> stands for the
  sanitizer on the values it is given below, which are strings without markup: such text
  comes back as it is. The general theorems speak of every sanitizer. No sample input holds
  a number that is no integer, and the port 3000 is not refused.
\<close>

definition plain_sanitize :: "jsval \<Rightarrow> string" where
  "plain_sanitize v = (case v of JStr s \<Rightarrow> s | _ \<Rightarrow> [])"

definition sample_env :: "string option \<Rightarrow> env" where
  "sample_env node_env =
     \<lparr>NODE_ENV = node_env, sanitize = plain_sanitize,
      object_text = (\<lambda>v. ''[object Object]''), number_text = (\<lambda>r. []),
      LOG_SAMPLING_RATE = Some 1, port_refused = (\<lambda>port. False)\<rparr>"

text \<open>The error \<open>jsonwebtoken\<close> throws for an expired token.\<close>

definition expired_token :: jsval where
  "expired_token =
     JObj [Error] [(''name'', JStr ''TokenExpiredError''), (''message'', JStr ''jwt expired''),
                   (''stack'', JStr ''TokenExpiredError: jwt expired'')]"

text \<open>A duplicate-key error of the driver, for the key \<open>{email: "a@b.com"}\<close>.\<close>

definition duplicate_key :: jsval where
  "duplicate_key =
     JObj [Error] [(''name'', JStr ''MongoServerError''), (''code'', JNum 11000),
                   (''keyValue'', JObj [] [(''email'', JStr ''a@b.com'')]),
                   (''message'', JStr ''E11000 duplicate key error'')]"

text \<open>An \<open>Error\<close> carrying the rate-limit code, and one no rule classifies.\<close>

definition rate_limited :: jsval where
  "rate_limited =
     JObj [Error] [(''name'', JStr ''Error''), (''code'', JStr ''RATE_LIMIT_EXCEEDED''),
                   (''message'', JStr ''slow down'')]"

definition plain_error :: jsval where
  "plain_error =
     JObj [Error] [(''name'', JStr ''Error''), (''message'', JStr ''boom''),
                   (''stack'', JStr ''Error: boom'')]"

definition sample_uuids :: uuid_src where
  "sample_uuids = (\<lambda>n. if n = 0 then ''1b9d6bcd-bbfd-4b2d-9b5d-ab8dfbbd4bed''
                        else ''9c5b94b1-35ad-49bb-b118-8e8fc24abf80'')"

definition other_uuids :: uuid_src where
  "other_uuids = (\<lambda>n. if n = 0 then ''7d444840-9dc0-11d1-b245-5ffdce74fad2''
                       else ''6ec0bd7f-11c0-43da-975e-2a8ad9ebae0b'')"

definition sample_request :: request where
  "sample_request =
     \<lparr>method = ''GET'', originalUrl = ''/api/products'', ip = JStr ''203.0.113.7'',
      headers = [(''user-agent'', JStr ''curl/8.5.0'')], query = [], body = JUndefined\<rparr>"


definition health_request :: request where
  "health_request =
     \<lparr>method = ''GET'', originalUrl = ''/health/live'', ip = JStr ''203.0.113.7'',
      headers = [], query = [], body = JUndefined\<rparr>"

definition connection_refused :: jsval where
  "connection_refused =
     JObj [Error, MongooseError]
       [(''name'', JStr ''MongooseServerSelectionError''),
        (''message'', JStr ''connect ECONNREFUSED 127.0.0.1:27017'')]"

section \<open>Predicates used in the statements\<close>




text \<open>The identifier whose first eight characters end the default code: the formatter's
  second draw when it also draws the correlation id, else its first.\<close>

definition code_uuid :: "uuid_src \<Rightarrow> request \<Rightarrow> string" where
  "code_uuid g req = fst (uuidv4 (snd (or_uuid (header req ''x-correlation-id'') g)))"

section \<open>Evaluating the formatters\<close>

lemmas rule_defs = validation_rule_def cast_rule_def jwt_invalid_rule_def jwt_expired_rule_def
  rate_limit_rule_def duplicate_rule_def app_error_rule_def fallback_rule_def fallback_fires_def

lemmas eval_defs = errorHandler_def classify_def classify_rules_def rule_defs thenE_def
  get_prop_def initial_def uuidv4_def or_uuid_def error_response_def lookup_def header_def
  is_integer_def safe_integer_def Let_def split_def sample_env_def plain_sanitize_def

text \<open>
  C8. The success formatter, called with status 200, message "ok" and payload \<open>{x: 1}\<close>,
  sends status 200 with the body \<open>{success: true, message: "ok", data: {x: 1}}\<close>; it hands
  nothing to the logger and draws no identifier.
\<close>

theorem successHandler_envelope:
  "successHandler g (Some 200) (Some ''ok'') (JObj [] [(''x'', JNum 1)]) =
     Inr \<lparr>res_status = JNum 200,
          res_json = [(''success'', JBool True), (''message'', JStr ''ok''),
                      (''data'', JObj [] [(''x'', JNum 1)])],
          logged = [], uuids = g\<rparr>"
  by (simp add: successHandler_def is_integer_def)

text \<open>
  C1. For the expired-token error, an instance of \<open>Error\<close> with the message "jwt expired",
  the formatter answers with status 401 and the code ERR-JWT-EXPIRED-401, for every
  \<open>NODE_ENV\<close>, but the message it sends is "jwt expired": the fallback for native errors
  runs after the token rule and overwrites the fixed message.
\<close>

theorem expired_token_message_overwritten:
  "map_sum id
     (\<lambda>h. (res_status h, lookup (res_json h) ''errorCode'', lookup (res_json h) ''message''))
     (errorHandler (sample_env node_env) g now req None None expired_token)
   = Inr (JNum 401, JStr ''ERR-JWT-EXPIRED-401'', JStr ''jwt expired'')"
  by (simp add: eval_defs expired_token_def)

text \<open>
  C2. For the duplicate-key error with \<open>keyValue = {email: "a@b.com"}\<close>, an instance of
  \<open>Error\<close>, the formatter answers with status 409, the code ERR-DUPLICATE-409 and the
  details \<open>{field: "email", value: "a@b.com"}\<close>, but the message it sends is the driver's
  own, not "Duplicate entry found.": the fallback overwrites it.
\<close>

theorem duplicate_key_message_overwritten:
  "map_sum id
     (\<lambda>h. (res_status h, lookup (res_json h) ''errorCode'', lookup (res_json h) ''message'',
           lookup (res_json h) ''details''))
     (errorHandler (sample_env node_env) g now req None None duplicate_key)
   = Inr (JNum 409, JStr ''ERR-DUPLICATE-409'', JStr ''E11000 duplicate key error'',
          JObj [] [(''field'', JStr ''email''), (''value'', JStr ''a@b.com'')])"
  by (simp add: eval_defs duplicate_key_def)

text \<open>
  C3. For an \<open>Error\<close> with the code RATE_LIMIT_EXCEEDED and the message "slow down" the
  rate-limit rule sets the details \<open>{retryAfter: 60}\<close> and its fixed message; the fallback
  then replaces that message by the error's own text, although details had been set: its
  guard reads the \<open>message\<close> entry of the details, which no such rule writes.
\<close>

theorem rate_limited_message_overwritten:
  "map_sum id (\<lambda>st. (message st, errorDetails st))
     (classify_rules (sample_env node_env) rate_limited (initial (sample_env node_env) None None u))
     = Inr (''Too many requests. Please try again later.'', [(''retryAfter'', JNum 60)])
   \<and> map_sum id (\<lambda>st. (message st, errorDetails st))
     (classify (sample_env node_env) rate_limited (initial (sample_env node_env) None None u))
     = Inr (''slow down'', [(''retryAfter'', JNum 60)])
   \<and> map_sum id
     (\<lambda>h. (res_status h, lookup (res_json h) ''errorCode'', lookup (res_json h) ''message'',
           lookup (res_json h) ''details''))
     (errorHandler (sample_env node_env) g now req None None rate_limited)
     = Inr (JNum 429, JStr ''ERR-RATE-LIMIT-429'', JStr ''slow down'',
            JObj [] [(''retryAfter'', JNum 60)])"
  by (simp add: eval_defs rate_limited_def)

section \<open>Facts about the classification rules\<close>

lemma thenE_Inr [simp]: "thenE (Inr x) f = f x"
  by (simp add: thenE_def)

lemma thenE_Inl [simp]: "thenE (Inl x) f = Inl x"
  by (simp add: thenE_def)


















lemma errorHandler_unfold:
  "errorHandler e g now req sc m error =
     (case classify e error (initial e sc m (code_uuid g req)) of
        Inl x \<Rightarrow> Inl (x, [])
      | Inr st \<Rightarrow>
         (case res_status_code (statusCode st) of
            Inl x \<Rightarrow>
              Inl (x, [error_log e now req (fst (or_uuid (header req ''x-correlation-id'') g))
                         error st])
          | Inr code \<Rightarrow>
              Inr \<lparr>res_status = code, res_json = error_response e error st,
                   logged = [error_log e now req
                               (fst (or_uuid (header req ''x-correlation-id'') g)) error st],
                   uuids = snd (uuidv4 (snd (or_uuid (header req ''x-correlation-id'') g)))\<rparr>))"
  by (simp add: errorHandler_def code_uuid_def split_def Let_def split: sum.split)


section \<open>The shape of the error response\<close>




section \<open>Facts about the middleware\<close>

lemma lookup_set_prop: "lookup (set_prop k v ps) k' = (if k' = k then v else lookup ps k')"
  by (induction ps) (auto simp: lookup_def)

lemma lookup_Nil [simp]: "lookup [] k = JUndefined"
  by (simp add: lookup_def)








lemma sanitized_headers [simp]:
  "sanitizedQuery (req\<lparr>headers := hs\<rparr>) = sanitizedQuery req"
  "sanitizedBody e (req\<lparr>headers := hs\<rparr>) = sanitizedBody e req"
  by (auto simp: sanitizedQuery_def sanitizedBody_def body_logged_def)

lemma lookup_Cons: "lookup ((k, v) # ps) k' = (if k' = k then v else lookup ps k')"
  by (simp add: lookup_def)

lemma read_logged_query:
  "read_prop (if ps \<noteq> [] then JObj [] ps else JUndefined) k = lookup ps k"
  by (cases ps) simp_all

lemma logRequest_logged:
  assumes "\<not> skip_route req" and "\<not> sampled_out e rnd"
  shows "logRequest e g rnd now req =
     \<lparr>req_out = req\<lparr>headers := set_prop ''x-correlation-id'' (fst (correlation g req)) (headers req)\<rparr>,
      listener = Some (logData e now
         (req\<lparr>headers := set_prop ''x-correlation-id'' (fst (correlation g req)) (headers req)\<rparr>)
         (fst (correlation g req))),
      logged_now = [], went_on = Next, uuids_out = snd (correlation g req)\<rparr>"
  using assms by (simp add: logRequest_def split_def Let_def)

lemma finish_lookup:
  "k \<notin> {''statusCode'', ''responseTime'', ''headers''} \<Longrightarrow>
   lookup (snd (finish e ld req status rt)) k = lookup ld k"
  by (simp add: finish_def Let_def lookup_set_prop)

lemma finish_logData:
  "read_prop (lookup (snd (finish e (logData e now req cid) req' status rt)) ''query'') k
     = lookup (sanitizedQuery req) k"
  "lookup (snd (finish e (logData e now req cid) req' status rt)) ''body'' = sanitizedBody e req"
  "lookup (snd (finish e (logData e now req cid) req' status rt)) ''correlationId'' = cid"
  "lookup (logData e now req cid) ''correlationId'' = cid"
  by (simp_all add: finish_lookup logData_def lookup_Cons read_logged_query)

lemma logRequest_skipped:
  assumes "skip_route req \<or> sampled_out e rnd"
  shows "logRequest e g rnd now req =
           \<lparr>req_out = req, listener = None, logged_now = [], went_on = Next, uuids_out = g\<rparr>"
  using assms by (auto simp: logRequest_def)


section \<open>Sensitive parameters in the log\<close>




section \<open>Skipped requests\<close>

text \<open>
  C5. For a request whose URL starts with "/health", "/ping" or "/static" the middleware
  registers no listener and logs nothing, leaves the request and the identifier source as
  they are, and goes on with \<open>next()\<close>.
\<close>

theorem skip_listed_prefix_not_logged:
  assumes "route \<in> set SKIP_LOGGING_ROUTES" and "startsWith (originalUrl req) route"
  shows "logRequest e g rnd now req =
           \<lparr>req_out = req, listener = None, logged_now = [], went_on = Next, uuids_out = g\<rparr>"
proof -
  from assms have "skip_route req"
    unfolding skip_route_def list_ex_iff by blast
  then show ?thesis by (simp add: logRequest_def)
qed

theorem skip_listed_prefix_not_logged_witness:
  "''/health'' \<in> set SKIP_LOGGING_ROUTES \<and> startsWith (originalUrl health_request) ''/health''
   \<and> logRequest (sample_env None) sample_uuids 0 ''2026-01-01T00:00:00.000Z'' health_request =
       \<lparr>req_out = health_request, listener = None, logged_now = [], went_on = Next,
        uuids_out = sample_uuids\<rparr>"
proof -
  have h1: "''/health'' \<in> set SKIP_LOGGING_ROUTES" by (simp add: SKIP_LOGGING_ROUTES_def)
  have h2: "startsWith (originalUrl health_request) ''/health''"
    by (simp add: startsWith_def health_request_def)
  from skip_listed_prefix_not_logged [OF h1 h2] h1 h2 show ?thesis by simp
qed

section \<open>The correlation id\<close>

text \<open>
  C6. For a request the middleware logs, the correlation id in \<open>logData\<close> is the
  \<open>x-correlation-id\<close> header when that is non-empty, else the \<open>correlation-id\<close> header when
  that is non-empty, else a fresh identifier; the entry logged when the response has been
  sent carries the same id, whatever the request, status and response time are then; and the
  id is the request's \<open>x-correlation-id\<close> header once the middleware has run.
\<close>

theorem correlation_id_of_logged_request:
  assumes "\<not> skip_route req" and "\<not> sampled_out e rnd"
  shows "\<exists>ld. listener (logRequest e g rnd now req) = Some ld
     \<and> lookup ld ''correlationId''
         = (if truthy (header req ''x-correlation-id'') then header req ''x-correlation-id''
            else if truthy (header req ''correlation-id'') then header req ''correlation-id''
            else JStr (fst (uuidv4 g)))
     \<and> lookup (snd (finish e ld req' status rt)) ''correlationId'' = lookup ld ''correlationId''
     \<and> header (req_out (logRequest e g rnd now req)) ''x-correlation-id''
         = lookup ld ''correlationId''"
  unfolding logRequest_logged [OF assms]
  by (simp add: finish_logData header_def lookup_set_prop correlation_def or_uuid_def)

theorem correlation_id_of_logged_request_witness:
  "\<not> skip_route sample_request \<and> \<not> sampled_out (sample_env None) 0
   \<and> (\<exists>ld. listener (logRequest (sample_env None) sample_uuids 0 ''2026-01-01T00:00:00.000Z''
                        sample_request) = Some ld
     \<and> lookup ld ''correlationId'' = JStr ''1b9d6bcd-bbfd-4b2d-9b5d-ab8dfbbd4bed''
     \<and> lookup (snd (finish (sample_env None) ld sample_request 200 (JNum 12))) ''correlationId''
         = lookup ld ''correlationId''
     \<and> header (req_out (logRequest (sample_env None) sample_uuids 0 ''2026-01-01T00:00:00.000Z''
                          sample_request)) ''x-correlation-id''
         = lookup ld ''correlationId'')"
proof -
  have h1: "\<not> skip_route sample_request"
    by (simp add: skip_route_def SKIP_LOGGING_ROUTES_def startsWith_def sample_request_def)
  have h2: "\<not> sampled_out (sample_env None) 0"
    by (simp add: sampled_out_def sample_env_def)
  have v: "header sample_request ''x-correlation-id'' = JUndefined"
    "header sample_request ''correlation-id'' = JUndefined"
    "fst (uuidv4 sample_uuids) = ''1b9d6bcd-bbfd-4b2d-9b5d-ab8dfbbd4bed''"
    by (simp_all add: header_def lookup_def sample_request_def uuidv4_def sample_uuids_def)
  from correlation_id_of_logged_request [OF h1 h2, where g = sample_uuids
         and now = "''2026-01-01T00:00:00.000Z''" and req' = sample_request and status = 200
         and rt = "JNum 12"]
  show ?thesis using h1 h2 by (simp add: v)
qed

text \<open>
  C10. When the middleware skips a request (its URL has a skip-listed prefix, or it is
  sampled out), the request, and so its headers, is unchanged, no listener is registered and
  no identifier is drawn. If the request has no non-empty \<open>x-correlation-id\<close> header, the
  entry the error formatter then logs carries the identifier the formatter draws itself.
\<close>

theorem skipped_request_gets_own_id:
  assumes "skip_route req \<or> sampled_out e rnd"
    and "\<not> truthy (header req ''x-correlation-id'')"
    and "errorHandler e g' now' (req_out (logRequest e g rnd now req)) sc m error = Inr h"
  shows "req_out (logRequest e g rnd now req) = req
     \<and> listener (logRequest e g rnd now req) = None
     \<and> uuids_out (logRequest e g rnd now req) = g
     \<and> map (\<lambda>entry. lookup (snd entry) ''correlationId'') (logged h) = [JStr (fst (uuidv4 g'))]"
proof -
  note skipped = logRequest_skipped [OF assms(1), of g now]
  from assms(3) have "errorHandler e g' now' req sc m error = Inr h"
    by (simp add: skipped)
  then have "map (\<lambda>entry. lookup (snd entry) ''correlationId'') (logged h) = [JStr (fst (uuidv4 g'))]"
    using assms(2)
    by (auto simp: errorHandler_unfold or_uuid_def error_log_def lookup_Cons
          split: sum.splits)
  then show ?thesis by (simp add: skipped)
qed

theorem skipped_request_gets_own_id_witness:
  "skip_route health_request \<and> \<not> truthy (header health_request ''x-correlation-id'')
   \<and> req_out (logRequest (sample_env None) sample_uuids 0 ''2026-01-01T00:00:00.000Z''
                health_request) = health_request
   \<and> map (\<lambda>entry. lookup (snd entry) ''correlationId'')
       (logged (projr (errorHandler (sample_env None) other_uuids ''2026-01-01T00:00:01.000Z''
          (req_out (logRequest (sample_env None) sample_uuids 0 ''2026-01-01T00:00:00.000Z''
                      health_request)) None None plain_error)))
     = [JStr ''7d444840-9dc0-11d1-b245-5ffdce74fad2'']"
proof -
  have h1: "skip_route health_request \<or> sampled_out (sample_env None) 0"
    by (simp add: skip_route_def SKIP_LOGGING_ROUTES_def startsWith_def health_request_def)
  have h2: "\<not> truthy (header health_request ''x-correlation-id'')"
    by (simp add: header_def lookup_def health_request_def)
  have s: "skip_route health_request"
    by (simp add: skip_route_def SKIP_LOGGING_ROUTES_def startsWith_def health_request_def)
  have h3: "errorHandler (sample_env None) other_uuids ''2026-01-01T00:00:01.000Z''
          (req_out (logRequest (sample_env None) sample_uuids 0 ''2026-01-01T00:00:00.000Z''
                      health_request)) None None plain_error
       = Inr (projr (errorHandler (sample_env None) other_uuids ''2026-01-01T00:00:01.000Z''
          (req_out (logRequest (sample_env None) sample_uuids 0 ''2026-01-01T00:00:00.000Z''
                      health_request)) None None plain_error))"
    by (simp add: errorHandler_def classify_def classify_rules_def validation_rule_def
          cast_rule_def jwt_invalid_rule_def jwt_expired_rule_def rate_limit_rule_def
          duplicate_rule_def app_error_rule_def fallback_rule_def fallback_fires_def
          get_prop_def plain_error_def split_def Let_def lookup_def initial_def
          is_integer_def)
  have u: "fst (uuidv4 other_uuids) = ''7d444840-9dc0-11d1-b245-5ffdce74fad2''"
    by (simp add: uuidv4_def other_uuids_def)
  from skipped_request_gets_own_id [OF h1 h2 h3, unfolded u] s h2 show ?thesis by blast
qed

section \<open>A failed database connection\<close>

text \<open>
  C7, as stated, fails. When the promise of \<open>mongoose.connect\<close> is rejected, the entry point
  has already called \<open>app.listen\<close>: the process prints the error and ends with exit status 1,
  and the socket was bound before.
\<close>

theorem rejected_connection_listens_counterexample:
  "entry_point (sample_env None) None (Rejected connection_refused) ListeningFirst =
     Inr \<lparr>console = [(Stdout, ''Server is running on  http://localhost:3000''),
                     (Stderr, ''Mongoose Error: connect ECONNREFUSED 127.0.0.1:27017'')],
          mounted = [''cors'', ''express.json'', ''express.urlencoded'', ''globalErrorHandler'',
                     ''GET /''],
          listening = Some (JNum 3000), exit_code = Some 1\<rparr>"
  by (simp add: entry_point_def connectDB_resume_def catch_block_def listening_callback_def
        Let_def PORT_def connection_refused_def lookup_def sample_env_def
        is_integer_def safe_integer_def show_int_def show_nat.simps digit_def)

text \<open>
  C7, amended. The entry point calls \<open>connectDB()\<close> without waiting for it and then
  \<open>app.listen\<close>. When the connection attempt fails, that is, the promise of
  \<open>mongoose.connect\<close> is rejected, then, unless \<open>app.listen\<close> has thrown on the port, the
  socket has been bound on that port, the process prints one line for the error on the error
  stream ("Mongoose Error: " and the message for an error of the driver's class, "Error: "
  and the message for another \<open>Error\<close>, "Unexpected Error: " and the value for anything
  else) and ends with exit status 1; the line of the listening callback comes before that
  line or not at all.
\<close>

theorem connection_failure_exit_and_socket:
  "entry_point e env_port (Rejected error) sched =
     (if port_refused e (PORT env_port) then Inl RangeError
      else
        Inr \<lparr>console =
               (case sched of
                  ListeningFirst \<Rightarrow>
                    [(Stdout,
                      ''Server is running on  http://localhost:'' @ to_text e (PORT env_port))]
                | PromiseFirst \<Rightarrow> [])
               @ [(Stderr,
                   if instanceof error MongooseError
                     then ''Mongoose Error: '' @ to_text e (read_prop error ''message'')
                   else if instanceof error Error
                     then ''Error: '' @ to_text e (read_prop error ''message'')
                   else ''Unexpected Error: '' @ to_text e error)],
             mounted = [''cors'', ''express.json'', ''express.urlencoded'',
                        ''globalErrorHandler'', ''GET /''],
             listening = Some (PORT env_port), exit_code = Some 1\<rparr>)"
  by (cases sched)
     (simp_all add: entry_point_def connectDB_resume_def catch_block_def listening_callback_def
        Let_def)

end
